theory Spec2Isabelle
  imports Main
begin

section \<open>Python values and string primitives used by the client\<close>

text \<open>
  Python text is modelled as \<open>string\<close>, one \<open>char\<close> per code point, which covers the code
  points below 256. Integers are unbounded (\<open>int\<close>). A decoded JSON document, and every
  value placed in a request body, is a \<open>json\<close> value; numbers with a fraction or an
  exponent are not modelled. A dictionary keeps its insertion order, as Python's does, and
  is an association list with distinct keys.
\<close>

datatype json =
    JNull
  | JBool bool
  | JInt int
  | JStr string
  | JList "json list"
  | JDict "(string \<times> json) list"

subsection \<open>\<open>str\<close> of an integer\<close>

definition digit_char :: "nat \<Rightarrow> char" where
  "digit_char d = ''0123456789'' ! (d mod 10)"

fun str_nat :: "nat \<Rightarrow> string" where
  "str_nat n = (if n < 10 then [digit_char n] else str_nat (n div 10) @ [digit_char (n mod 10)])"

declare str_nat.simps [simp del]

definition str_int :: "int \<Rightarrow> string" where
  "str_int i = (if i < 0 then CHR ''-'' # str_nat (nat (- i)) else str_nat (nat i))"

subsection \<open>\<open>str.strip\<close>, \<open>str.rstrip\<close>, \<open>str.split\<close>, \<open>str.join\<close>, \<open>str.startswith\<close>\<close>

definition py_lstrip_chars :: "string \<Rightarrow> string \<Rightarrow> string" where
  "py_lstrip_chars cs s = dropWhile (\<lambda>c. c \<in> set cs) s"

definition py_rstrip_chars :: "string \<Rightarrow> string \<Rightarrow> string" where
  "py_rstrip_chars cs s = rev (dropWhile (\<lambda>c. c \<in> set cs) (rev s))"

definition py_strip_chars :: "string \<Rightarrow> string \<Rightarrow> string" where
  "py_strip_chars cs s = py_rstrip_chars cs (py_lstrip_chars cs s)"

text \<open>The code points below 256 for which \<open>str.isspace\<close> holds.\<close>

definition py_isspace :: "char \<Rightarrow> bool" where
  "py_isspace c =
     (let n = (of_char c :: nat)
      in (9 \<le> n \<and> n \<le> 13) \<or> (28 \<le> n \<and> n \<le> 32) \<or> n = 133 \<or> n = 160)"

definition py_strip :: "string \<Rightarrow> string" where
  "py_strip s = rev (dropWhile py_isspace (rev (dropWhile py_isspace s)))"

fun py_split :: "char \<Rightarrow> string \<Rightarrow> string list" where
  "py_split sep [] = [[]]"
| "py_split sep (c # cs) =
     (if c = sep then [] # py_split sep cs
      else (case py_split sep cs of
              [] \<Rightarrow> [[c]]
            | l # ls \<Rightarrow> (c # l) # ls))"

fun py_join :: "string \<Rightarrow> string list \<Rightarrow> string" where
  "py_join sep [] = []"
| "py_join sep [x] = x"
| "py_join sep (x # y # ys) = x @ sep @ py_join sep (y # ys)"

definition startswith_char :: "char \<Rightarrow> string \<Rightarrow> bool" where
  "startswith_char c s = (case s of [] \<Rightarrow> False | d # _ \<Rightarrow> d = c)"

subsection \<open>\<open>str.title\<close> on ASCII text\<close>

text \<open>
  \<open>str.title\<close> upper-cases a cased character that follows an uncased one and lower-cases
  a cased character that follows a cased one, by the case tables of the Python runtime. The
  client is modelled with the runtime's own \<open>str.title\<close>, which the world supplies (see
  \<open>str_title\<close> below). \<open>ascii_title\<close> is what \<open>str.title\<close> does on ASCII text; it serves
  as the title function of the sample world only.
\<close>

definition is_ascii_lower :: "char \<Rightarrow> bool" where
  "is_ascii_lower c = (let n = (of_char c :: nat) in 97 \<le> n \<and> n \<le> 122)"

definition is_ascii_upper :: "char \<Rightarrow> bool" where
  "is_ascii_upper c = (let n = (of_char c :: nat) in 65 \<le> n \<and> n \<le> 90)"

definition ascii_to_upper :: "char \<Rightarrow> char" where
  "ascii_to_upper c = (if is_ascii_lower c then char_of ((of_char c :: nat) - 32) else c)"

definition ascii_to_lower :: "char \<Rightarrow> char" where
  "ascii_to_lower c = (if is_ascii_upper c then char_of ((of_char c :: nat) + 32) else c)"

fun title_from :: "bool \<Rightarrow> string \<Rightarrow> string" where
  "title_from previous_is_cased [] = []"
| "title_from previous_is_cased (c # cs) =
     (if previous_is_cased then ascii_to_lower c else ascii_to_upper c)
       # title_from (is_ascii_lower c \<or> is_ascii_upper c) cs"

definition ascii_title :: "string \<Rightarrow> string" where
  "ascii_title s = title_from False s"

subsection \<open>\<open>str\<close> and \<open>repr\<close> of a decoded value\<close>

definition hex_char :: "nat \<Rightarrow> char" where
  "hex_char d = ''0123456789abcdef'' ! (d mod 16)"

definition py_printable :: "char \<Rightarrow> bool" where
  "py_printable c =
     (let n = (of_char c :: nat)
      in (32 \<le> n \<and> n < 127) \<or> (161 \<le> n \<and> n \<noteq> 173))"

definition repr_char :: "char \<Rightarrow> char \<Rightarrow> string" where
  "repr_char quote c =
     (if c = quote \<or> c = CHR 0x5C then [CHR 0x5C, c]
      else if c = CHR 0x09 then [CHR 0x5C, CHR ''t'']
      else if c = CHR 0x0A then [CHR 0x5C, CHR ''n'']
      else if c = CHR 0x0D then [CHR 0x5C, CHR ''r'']
      else if py_printable c then [c]
      else [CHR 0x5C, CHR ''x'', hex_char ((of_char c :: nat) div 16),
            hex_char ((of_char c :: nat) mod 16)])"

definition repr_str :: "string \<Rightarrow> string" where
  "repr_str s =
     (let quote = (if CHR 0x27 \<in> set s \<and> CHR 0x22 \<notin> set s then CHR 0x22 else CHR 0x27)
      in quote # concat (map (repr_char quote) s) @ [quote])"

fun py_repr :: "json \<Rightarrow> string" where
  "py_repr JNull = ''None''"
| "py_repr (JBool b) = (if b then ''True'' else ''False'')"
| "py_repr (JInt i) = str_int i"
| "py_repr (JStr s) = repr_str s"
| "py_repr (JList xs) = ''['' @ py_join '', '' (map py_repr xs) @ '']''"
| "py_repr (JDict kvs) =
     ''{'' @ py_join '', '' (map (\<lambda>kv. repr_str (fst kv) @ '': '' @ py_repr (snd kv)) kvs) @ ''}''"

text \<open>\<open>str(v)\<close>, which an f-string applies to an interpolated value.\<close>

definition py_str :: "json \<Rightarrow> string" where
  "py_str v = (case v of JStr s \<Rightarrow> s | _ \<Rightarrow> py_repr v)"

section \<open>Errors, requests and the outside world\<close>

text \<open>
  What \<open>requests\<close> raises: a transport failure (connection, DNS, timeout), the
  \<open>HTTPError\<close> of \<open>raise_for_status\<close>, and the \<open>JSONDecodeError\<close> of
  \<open>response.json()\<close>; all three are subclasses of \<open>requests.RequestException\<close>.
\<close>

datatype request_exception =
    ConnectionFailure string
  | HTTPError nat
  | JSONDecodeError

datatype os_error =
    FileNotFoundError
  | FileExistsError
  | NotADirectoryError
  | IsADirectoryError

datatype error =
    AttributeError
  | TypeError
  | KeyError string
  | ValueError string
  | AuthenticationFailed request_exception
  | RequestException request_exception
  | OSError os_error
  | GeminiError string

datatype http_method = GET | POST | DELETE

datatype payload =
    NoPayload
  | JsonPayload "(string \<times> json) list"
  | MultipartPayload "(string \<times> string \<times> string) list" "(string \<times> string) list"

record request =
  req_method :: http_method
  req_url :: string
  req_headers :: "(string \<times> string) list option"
  req_payload :: payload
  req_timeout :: nat

text \<open>
  The server's answer to one request: no answer at all, or a status code with the body as
  \<open>response.json()\<close> decodes it (\<open>None\<close> when the body is not JSON).
\<close>

datatype reply =
    NoReply string
  | Reply nat "json option"

subsection \<open>Paths and the file system\<close>

text \<open>
  A \<open>pathlib.Path\<close> on POSIX: an anchor (\<open>""\<close>, \<open>"/"\<close> or \<open>"//"\<close>) and the components.
  Files are addressed by anchor and components; \<open>..\<close> and symbolic links are not resolved,
  and permissions and free space are not modelled.
\<close>

type_synonym path = "string \<times> string list"

datatype node = Dir | File string

definition path_anchor :: "string \<Rightarrow> string" where
  "path_anchor s =
     (case s of
        c1 # c2 # rest \<Rightarrow>
          (if c1 = CHR ''/'' \<and> c2 = CHR ''/'' \<and> \<not> startswith_char CHR ''/'' rest then ''//''
           else if c1 = CHR ''/'' then ''/'' else [])
      | _ \<Rightarrow> (if s = ''/'' then ''/'' else []))"

definition Path :: "string \<Rightarrow> path" where
  "Path s = (path_anchor s, filter (\<lambda>p. p \<noteq> [] \<and> p \<noteq> ''.'') (py_split CHR ''/'' s))"

definition joinpath :: "path \<Rightarrow> string \<Rightarrow> path" where
  "joinpath p name = (fst p, snd p @ [name])"

definition path_str :: "path \<Rightarrow> string" where
  "path_str p = (if fst p = [] \<and> snd p = [] then ''.'' else fst p @ py_join ''/'' (snd p))"

text \<open>\<open>os.path.basename\<close>: what follows the last slash.\<close>

definition basename :: "string \<Rightarrow> string" where
  "basename s = rev (takeWhile (\<lambda>c. c \<noteq> CHR ''/'') (rev s))"

type_synonym filesystem = "path \<Rightarrow> node option"

text \<open>The anchor itself (the root, or the working directory) is always a directory.\<close>

definition node_at :: "filesystem \<Rightarrow> path \<Rightarrow> node option" where
  "node_at fs p = (if snd p = [] then Some Dir else fs p)"

text \<open>
  \<open>Path.mkdir(parents=True, exist_ok=True)\<close> on the first \<open>n\<close> components: an existing
  directory is accepted, a missing one is created, a regular file in the way is an error.
\<close>

fun make_dirs :: "filesystem \<Rightarrow> path \<Rightarrow> nat \<Rightarrow> error + filesystem" where
  "make_dirs fs p 0 = Inr fs"
| "make_dirs fs p (Suc n) =
     (case make_dirs fs p n of
        Inl e \<Rightarrow> Inl e
      | Inr fs1 \<Rightarrow>
          (let q = (fst p, take (Suc n) (snd p))
           in case node_at fs1 q of
                Some Dir \<Rightarrow> Inr fs1
              | Some (File _) \<Rightarrow>
                  Inl (OSError (if Suc n = length (snd p) then FileExistsError
                                else NotADirectoryError))
              | None \<Rightarrow> Inr (fs1(q \<mapsto> Dir))))"

definition mkdir_parents :: "filesystem \<Rightarrow> path \<Rightarrow> error + filesystem" where
  "mkdir_parents fs p = make_dirs fs p (length (snd p))"

text \<open>\<open>open(p, "w")\<close> followed by one \<open>write\<close>: the file is created or truncated.\<close>

definition write_text :: "filesystem \<Rightarrow> path \<Rightarrow> string \<Rightarrow> error + filesystem" where
  "write_text fs p text =
     (case node_at fs p of
        Some Dir \<Rightarrow> Inl (OSError IsADirectoryError)
      | _ \<Rightarrow>
          (case node_at fs (fst p, butlast (snd p)) of
             Some Dir \<Rightarrow> Inr (fs(p \<mapsto> File text))
           | Some (File _) \<Rightarrow> Inl (OSError NotADirectoryError)
           | None \<Rightarrow> Inl (OSError FileNotFoundError)))"

subsection \<open>The clock\<close>

text \<open>
  A reading of \<open>datetime.now()\<close>: year, month, day, hour, minute and second. The fields
  are in the ranges in which a \<open>datetime\<close> keeps them, and the year has four digits, the
  system clock counting from 1970.
\<close>

typedef datetime =
  "{t :: nat \<times> nat \<times> nat \<times> nat \<times> nat \<times> nat.
      case t of (y, mo, d, h, mi, s) \<Rightarrow>
        1000 \<le> y \<and> y \<le> 9999 \<and> 1 \<le> mo \<and> mo \<le> 12 \<and> 1 \<le> d \<and> d \<le> 31
        \<and> h \<le> 23 \<and> mi \<le> 59 \<and> s \<le> 59}"
  by (rule exI [of _ "(2000, 1, 1, 0, 0, 0)"]) simp

setup_lifting type_definition_datetime

lift_definition year :: "datetime \<Rightarrow> nat" is "\<lambda>(y, mo, d, h, mi, s). y" .

lift_definition month :: "datetime \<Rightarrow> nat" is "\<lambda>(y, mo, d, h, mi, s). mo" .

lift_definition day :: "datetime \<Rightarrow> nat" is "\<lambda>(y, mo, d, h, mi, s). d" .

lift_definition hour :: "datetime \<Rightarrow> nat" is "\<lambda>(y, mo, d, h, mi, s). h" .

lift_definition minute :: "datetime \<Rightarrow> nat" is "\<lambda>(y, mo, d, h, mi, s). mi" .

lift_definition second :: "datetime \<Rightarrow> nat" is "\<lambda>(y, mo, d, h, mi, s). s" .

definition zfill :: "nat \<Rightarrow> string \<Rightarrow> string" where
  "zfill width s = replicate (width - length s) CHR ''0'' @ s"

text \<open>
  \<open>strftime('%Y%m%d_%H%M%S')\<close>: the year in decimal, which has four digits, and the
  other fields in two digits each.
\<close>

definition strftime_stamp :: "datetime \<Rightarrow> string" where
  "strftime_stamp t =
     str_nat (year t) @ zfill 2 (str_nat (month t)) @ zfill 2 (str_nat (day t))
       @ ''_'' @ zfill 2 (str_nat (hour t)) @ zfill 2 (str_nat (minute t))
       @ zfill 2 (str_nat (second t))"

subsection \<open>The world the client runs in\<close>

text \<open>
  \<open>respond\<close> is the network: the reply to a request, given the requests sent before it.
  \<open>sent\<close> records every request that has gone out. \<open>read_file\<close> is \<open>open(path, "rb")\<close>
  with the whole content read; \<open>genai_configure\<close> and \<open>generate_content\<close> are the
  generative-text library; \<open>now\<close> is \<open>datetime.now()\<close>; \<open>str_title\<close> is the
  \<open>str.title\<close> of the Python runtime. Logging is left out.
\<close>

record world =
  respond :: "request list \<Rightarrow> request \<Rightarrow> reply"
  sent :: "request list"
  read_file :: "string \<Rightarrow> error + string"
  genai_configure :: "string option \<Rightarrow> error option"
  generate_content :: "string \<Rightarrow> string \<Rightarrow> error + string"
  now :: datetime
  str_title :: "string \<Rightarrow> string"
  files :: filesystem

definition send :: "request \<Rightarrow> world \<Rightarrow> reply \<times> world" where
  "send r w = (respond w (sent w) r, w\<lparr>sent := sent w @ [r]\<rparr>)"

text \<open>
  The three steps every method takes with a reply: the call itself raises on a transport
  failure, \<open>raise_for_status\<close> raises on a status from 400 to 599, \<open>response.json()\<close>
  raises on a body that is not JSON.
\<close>

definition checked_json :: "reply \<Rightarrow> request_exception + json" where
  "checked_json rp =
     (case rp of
        NoReply msg \<Rightarrow> Inl (ConnectionFailure msg)
      | Reply status body \<Rightarrow>
          (if 400 \<le> status \<and> status < 600 then Inl (HTTPError status)
           else (case body of None \<Rightarrow> Inl JSONDecodeError | Some j \<Rightarrow> Inr j)))"

section \<open>The client\<close>

record client =
  site_url :: string
  api_url :: string
  jwt_url :: string
  username :: "string option"
  password :: "string option"
  gemini_api_key :: "string option"
  token :: json
  headers :: "(string \<times> string) list option"
  gemini_model :: "string option"

text \<open>A value of \<open>os.getenv\<close> inside a JSON body: \<open>None\<close> is sent as \<open>null\<close>.\<close>

definition json_of_opt :: "string option \<Rightarrow> json" where
  "json_of_opt v = (case v of None \<Rightarrow> JNull | Some s \<Rightarrow> JStr s)"

subsection \<open>Construction\<close>

text \<open>
  \<open>_validate_config\<close>: the loop over the required settings, in the order of the
  dictionary, raising at the first one that is \<open>None\<close> or empty.
\<close>

fun first_missing :: "(string \<times> string option) list \<Rightarrow> string option" where
  "first_missing [] = None"
| "first_missing ((key, v) # rest) =
     (case v of
        None \<Rightarrow> Some key
      | Some s \<Rightarrow> if s = [] then Some key else first_missing rest)"

definition validate_config :: "client \<Rightarrow> error + unit" where
  "validate_config c =
     (case first_missing
             [(''WORDPRESS_URL'', Some (site_url c)),
              (''WORDPRESS_USERNAME'', username c),
              (''WORDPRESS_PASSWORD'', password c),
              (''GEMINI_API_KEY'', gemini_api_key c)] of
        Some key \<Rightarrow> Inl (ValueError (''Konfigurasi '' @ key @ '' tidak ditemukan di .env''))
      | None \<Rightarrow> Inr ())"

definition configure_gemini :: "client \<Rightarrow> world \<Rightarrow> error + client" where
  "configure_gemini c w =
     (case genai_configure w (gemini_api_key c) of
        Some e \<Rightarrow> Inl e
      | None \<Rightarrow> Inr (c\<lparr>gemini_model := Some ''gemini-1.5-flash''\<rparr>))"

text \<open>
  \<open>authenticate\<close>: only a \<open>RequestException\<close> is caught and turned into the
  "Autentikasi gagal" exception. A body that decodes to something other than an object has
  no \<open>get\<close>, which is an \<open>AttributeError\<close> that passes through.
\<close>

definition auth_request :: "client \<Rightarrow> request" where
  "auth_request c =
     (let payload = [(''username'', json_of_opt (username c)),
                     (''password'', json_of_opt (password c))]
      in \<lparr>req_method = POST, req_url = jwt_url c, req_headers = None,
          req_payload = JsonPayload payload, req_timeout = 10\<rparr>)"

definition authenticate :: "client \<Rightarrow> world \<Rightarrow> (error + unit) \<times> client \<times> world" where
  "authenticate c w =
     (let (rp, w1) = send (auth_request c) w
      in case checked_json rp of
           Inl e \<Rightarrow> (Inl (AuthenticationFailed e), c, w1)
         | Inr body \<Rightarrow>
             (case body of
                JDict kvs \<Rightarrow>
                  (let tok = (case map_of kvs ''token'' of None \<Rightarrow> JNull | Some v \<Rightarrow> v)
                   in (Inr (),
                       c\<lparr>token := tok,
                         headers := Some [(''Authorization'', ''Bearer '' @ py_str tok),
                                          (''Content-Type'', ''application/json'')]\<rparr>,
                       w1))
              | _ \<Rightarrow> (Inl AttributeError, c, w1)))"

text \<open>
  \<open>__init__\<close>, given \<open>os.getenv\<close> as it is after \<open>load_dotenv\<close>. \<open>rstrip\<close> is called on
  the site URL before anything is validated, so a missing \<open>WORDPRESS_URL\<close> is an
  \<open>AttributeError\<close> on \<open>None\<close>.
\<close>

definition init :: "(string \<Rightarrow> string option) \<Rightarrow> world \<Rightarrow> (error + client) \<times> world" where
  "init getenv w =
     (case getenv ''WORDPRESS_URL'' of
        None \<Rightarrow> (Inl AttributeError, w)
      | Some u \<Rightarrow>
          (let site = py_rstrip_chars ''/'' u;
               c = \<lparr>site_url = site,
                    api_url = site @ ''/wp-json/wp/v2'',
                    jwt_url = site @ ''/wp-json/jwt-auth/v1/token'',
                    username = getenv ''WORDPRESS_USERNAME'',
                    password = getenv ''WORDPRESS_PASSWORD'',
                    gemini_api_key = getenv ''GEMINI_API_KEY'',
                    token = JNull,
                    headers = None,
                    gemini_model = None\<rparr>
           in case validate_config c of
                Inl e \<Rightarrow> (Inl e, w)
              | Inr _ \<Rightarrow>
                  (case authenticate c w of
                     (Inl e, _, w1) \<Rightarrow> (Inl e, w1)
                   | (Inr _, c1, w1) \<Rightarrow>
                       (case configure_gemini c1 w1 of
                          Inl e \<Rightarrow> (Inl e, w1)
                        | Inr c2 \<Rightarrow> (Inr c2, w1)))))"

subsection \<open>The JSON operations\<close>

text \<open>
  Every JSON method sends one request with \<open>headers=self.headers\<close> and a timeout of ten
  seconds, and returns the decoded body; a \<open>RequestException\<close> is logged and raised again.
\<close>

definition json_call ::
  "http_method \<Rightarrow> string \<Rightarrow> payload \<Rightarrow> client \<Rightarrow> world \<Rightarrow> (error + json) \<times> client \<times> world"
where
  "json_call m u p c w =
     (let (rp, w1) = send \<lparr>req_method = m, req_url = u, req_headers = headers c,
                           req_payload = p, req_timeout = 10\<rparr> w
      in (case checked_json rp of
            Inl e \<Rightarrow> Inl (RequestException e)
          | Inr j \<Rightarrow> Inr j,
          c, w1))"

text \<open>\<open>data[key] = value\<close> on an insertion-ordered dictionary.\<close>

fun dict_set :: "(string \<times> json) list \<Rightarrow> string \<Rightarrow> json \<Rightarrow> (string \<times> json) list" where
  "dict_set [] k v = [(k, v)]"
| "dict_set ((k', v') # rest) k v =
     (if k' = k then (k, v) # rest else (k', v') # dict_set rest k v)"

definition list_themes :: "client \<Rightarrow> world \<Rightarrow> (error + json) \<times> client \<times> world" where
  "list_themes c w = json_call GET (site_url c @ ''/wp-json/wp/v2/themes'') NoPayload c w"

definition activate_theme ::
  "client \<Rightarrow> string \<Rightarrow> world \<Rightarrow> (error + json) \<times> client \<times> world"
where
  "activate_theme c theme_slug w =
     json_call POST (site_url c @ ''/wp-json/wp/v2/settings'')
       (JsonPayload [(''theme'', JStr theme_slug)]) c w"

definition update_menu ::
  "client \<Rightarrow> int \<Rightarrow> json list \<Rightarrow> world \<Rightarrow> (error + json) \<times> client \<times> world"
where
  "update_menu c menu_id items w =
     json_call POST (api_url c @ ''/menus/'' @ str_int menu_id)
       (JsonPayload [(''items'', JList items)]) c w"

definition create_post_data ::
  "string \<Rightarrow> string \<Rightarrow> int list option \<Rightarrow> int option \<Rightarrow> string \<Rightarrow> string
     \<Rightarrow> (string \<times> json) list"
where
  "create_post_data title content categories featured_image_id status post_type =
     (let data0 = [(''title'', JStr title), (''content'', JStr content),
                   (''status'', JStr status), (''type'', JStr post_type)];
          data1 = (case categories of
                     None \<Rightarrow> data0
                   | Some cs \<Rightarrow>
                       if cs = [] then data0
                       else dict_set data0 ''categories'' (JList (map JInt cs)));
          data2 = (case featured_image_id of
                     None \<Rightarrow> data1
                   | Some i \<Rightarrow>
                       if i = 0 then data1 else dict_set data1 ''featured_media'' (JInt i))
      in data2)"

definition create_post ::
  "client \<Rightarrow> string \<Rightarrow> string \<Rightarrow> int list option \<Rightarrow> int option \<Rightarrow> string \<Rightarrow> string
     \<Rightarrow> world \<Rightarrow> (error + json) \<times> client \<times> world"
where
  "create_post c title content categories featured_image_id status post_type w =
     json_call POST (api_url c @ ''/'' @ post_type @ ''s'')
       (JsonPayload (create_post_data title content categories featured_image_id
                       status post_type)) c w"

definition update_post_data ::
  "string option \<Rightarrow> string option \<Rightarrow> int list option \<Rightarrow> int option \<Rightarrow> (string \<times> json) list"
where
  "update_post_data title content categories featured_image_id =
     (let data0 = [];
          data1 = (case title of
                     None \<Rightarrow> data0
                   | Some t \<Rightarrow> if t = [] then data0 else dict_set data0 ''title'' (JStr t));
          data2 = (case content of
                     None \<Rightarrow> data1
                   | Some b \<Rightarrow> if b = [] then data1 else dict_set data1 ''content'' (JStr b));
          data3 = (case categories of
                     None \<Rightarrow> data2
                   | Some cs \<Rightarrow>
                       if cs = [] then data2
                       else dict_set data2 ''categories'' (JList (map JInt cs)));
          data4 = (case featured_image_id of
                     None \<Rightarrow> data3
                   | Some i \<Rightarrow>
                       if i = 0 then data3 else dict_set data3 ''featured_media'' (JInt i))
      in data4)"

definition update_post ::
  "client \<Rightarrow> int \<Rightarrow> string \<Rightarrow> string option \<Rightarrow> string option \<Rightarrow> int list option
     \<Rightarrow> int option \<Rightarrow> world \<Rightarrow> (error + json) \<times> client \<times> world"
where
  "update_post c post_id post_type title content categories featured_image_id w =
     json_call POST (api_url c @ ''/'' @ post_type @ ''s/'' @ str_int post_id)
       (JsonPayload (update_post_data title content categories featured_image_id)) c w"

definition delete_post ::
  "client \<Rightarrow> int \<Rightarrow> string \<Rightarrow> world \<Rightarrow> (error + json) \<times> client \<times> world"
where
  "delete_post c post_id post_type w =
     json_call DELETE (api_url c @ ''/'' @ post_type @ ''s/'' @ str_int post_id) NoPayload c w"

definition create_user ::
  "client \<Rightarrow> string \<Rightarrow> string \<Rightarrow> string \<Rightarrow> string \<Rightarrow> world
     \<Rightarrow> (error + json) \<times> client \<times> world"
where
  "create_user c uname email pw role w =
     json_call POST (api_url c @ ''/users'')
       (JsonPayload [(''username'', JStr uname), (''email'', JStr email),
                     (''password'', JStr pw), (''roles'', JList [JStr role])]) c w"

definition update_user_data :: "string option \<Rightarrow> string option \<Rightarrow> (string \<times> json) list" where
  "update_user_data email role =
     (let data0 = [];
          data1 = (case email of
                     None \<Rightarrow> data0
                   | Some e \<Rightarrow> if e = [] then data0 else dict_set data0 ''email'' (JStr e));
          data2 = (case role of
                     None \<Rightarrow> data1
                   | Some r \<Rightarrow>
                       if r = [] then data1 else dict_set data1 ''roles'' (JList [JStr r]))
      in data2)"

definition update_user ::
  "client \<Rightarrow> int \<Rightarrow> string option \<Rightarrow> string option \<Rightarrow> world
     \<Rightarrow> (error + json) \<times> client \<times> world"
where
  "update_user c user_id email role w =
     json_call POST (api_url c @ ''/users/'' @ str_int user_id)
       (JsonPayload (update_user_data email role)) c w"

definition delete_user_url :: "client \<Rightarrow> int \<Rightarrow> int option \<Rightarrow> string" where
  "delete_user_url c user_id reassign =
     (let url = api_url c @ ''/users/'' @ str_int user_id
      in case reassign of
           None \<Rightarrow> url
         | Some r \<Rightarrow> if r = 0 then url else url @ ''?reassign='' @ str_int r)"

definition delete_user ::
  "client \<Rightarrow> int \<Rightarrow> int option \<Rightarrow> world \<Rightarrow> (error + json) \<times> client \<times> world"
where
  "delete_user c user_id reassign w =
     json_call DELETE (delete_user_url c user_id reassign) NoPayload c w"

subsection \<open>Media upload\<close>

text \<open>
  \<open>upload_media\<close> builds a header dictionary of its own from
  \<open>self.headers["Authorization"]\<close>, opens the file, and posts a multipart form with a
  timeout of fifteen seconds. Subscripting \<open>None\<close> is a \<open>TypeError\<close>, a missing key a
  \<open>KeyError\<close>; the error of \<open>open\<close> is raised again as it is.
\<close>

definition upload_media ::
  "client \<Rightarrow> string \<Rightarrow> string \<Rightarrow> string \<Rightarrow> world \<Rightarrow> (error + json) \<times> client \<times> world"
where
  "upload_media c file_path alt_text description w =
     (case headers c of
        None \<Rightarrow> (Inl TypeError, c, w)
      | Some hs \<Rightarrow>
          (case map_of hs ''Authorization'' of
             None \<Rightarrow> (Inl (KeyError ''Authorization''), c, w)
           | Some auth \<Rightarrow>
               (case read_file w file_path of
                  Inl e \<Rightarrow> (Inl e, c, w)
                | Inr content \<Rightarrow>
                    (let (rp, w1) =
                           send \<lparr>req_method = POST, req_url = api_url c @ ''/media'',
                                 req_headers = Some [(''Authorization'', auth)],
                                 req_payload =
                                   MultipartPayload
                                     [(''file'', basename file_path, content)]
                                     [(''alt_text'', alt_text), (''description'', description)],
                                 req_timeout = 15\<rparr> w
                     in (case checked_json rp of
                           Inl e \<Rightarrow> Inl (RequestException e)
                         | Inr j \<Rightarrow> Inr j,
                         c, w1)))))"

subsection \<open>Backup\<close>

definition backup_text :: string where
  "backup_text =
     ''Simulasi backup WordPress. Gunakan plugin seperti UpdraftPlus untuk backup nyata.''"

definition backup_name :: "datetime \<Rightarrow> string" where
  "backup_name t = ''backup_'' @ strftime_stamp t @ ''.zip''"

definition backup_site :: "client \<Rightarrow> string \<Rightarrow> world \<Rightarrow> (error + json) \<times> client \<times> world" where
  "backup_site c backup_path w =
     (let backup_dir = Path backup_path
      in case mkdir_parents (files w) backup_dir of
           Inl e \<Rightarrow> (Inl e, c, w)
         | Inr fs1 \<Rightarrow>
             (let backup_file = joinpath backup_dir (backup_name (now w))
              in case write_text fs1 backup_file backup_text of
                   Inl e \<Rightarrow> (Inl e, c, w\<lparr>files := fs1\<rparr>)
                 | Inr fs2 \<Rightarrow> (Inr (JStr (path_str backup_file)), c, w\<lparr>files := fs2\<rparr>)))"

subsection \<open>Article generation\<close>

definition length_map :: "(string \<times> int) list" where
  "length_map = [(''short'', 200), (''medium'', 500), (''long'', 1000)]"

definition word_count :: "string \<Rightarrow> int" where
  "word_count len = (case map_of length_map len of None \<Rightarrow> 500 | Some n \<Rightarrow> n)"

definition article_prompt :: "string \<Rightarrow> string \<Rightarrow> string" where
  "article_prompt topic len =
     ''Buat artikel dalam bahasa Indonesia tentang '' @ [CHR 0x27] @ topic @ [CHR 0x27]
       @ '' dengan panjang sekitar '' @ str_int (word_count len) @ '' kata. ''
       @ ''Gunakan gaya penulisan yang informatif dan menarik, cocok untuk blog WordPress. ''
       @ ''Sertakan judul yang relevan dan konten yang terstruktur dengan paragraf yang jelas.''"

text \<open>
  The two conditional expressions of the method on the text the service returned, with
  \<open>title_of\<close> for \<open>str.title\<close>. \<open>split\<close> never returns an empty list, so \<open>lines[0]\<close>
  is always there.
\<close>

definition article_of ::
  "(string \<Rightarrow> string) \<Rightarrow> string \<Rightarrow> string \<Rightarrow> string \<times> string"
where
  "article_of title_of topic content =
     (case py_split CHR 0x0A content of
        [] \<Rightarrow> (title_of topic, content)
      | line0 # rest \<Rightarrow>
          (if startswith_char CHR ''#'' line0 then py_strip (py_strip_chars ''# '' line0)
           else title_of topic,
           if startswith_char CHR ''#'' line0 then py_strip (py_join [CHR 0x0A] rest)
           else content))"

definition generate_article_with_gemini ::
  "client \<Rightarrow> string \<Rightarrow> string \<Rightarrow> world \<Rightarrow> (error + json) \<times> client \<times> world"
where
  "generate_article_with_gemini c topic len w =
     (case gemini_model c of
        None \<Rightarrow> (Inl AttributeError, c, w)
      | Some model \<Rightarrow>
          (case generate_content w model (article_prompt topic len) of
             Inl e \<Rightarrow> (Inl e, c, w)
           | Inr content \<Rightarrow>
               (let (title, article_content) = article_of (str_title w) topic content
                in (Inr (JDict [(''title'', JStr title), (''content'', JStr article_content)]),
                    c, w))))"

subsection \<open>A caller\<close>

text \<open>One call of a public method after construction, and a sequence of such calls.\<close>

datatype operation =
    ListThemes
  | ActivateTheme string
  | UpdateMenu int "json list"
  | CreatePost string string "int list option" "int option" string string
  | UpdatePost int string "string option" "string option" "int list option" "int option"
  | DeletePost int string
  | UploadMedia string string string
  | CreateUser string string string string
  | UpdateUser int "string option" "string option"
  | DeleteUser int "int option"
  | BackupSite string
  | GenerateArticle string string

fun run_op :: "client \<Rightarrow> operation \<Rightarrow> world \<Rightarrow> (error + json) \<times> client \<times> world" where
  "run_op c ListThemes w = list_themes c w"
| "run_op c (ActivateTheme slug) w = activate_theme c slug w"
| "run_op c (UpdateMenu menu_id items) w = update_menu c menu_id items w"
| "run_op c (CreatePost title content cats img status ptype) w =
     create_post c title content cats img status ptype w"
| "run_op c (UpdatePost post_id ptype title content cats img) w =
     update_post c post_id ptype title content cats img w"
| "run_op c (DeletePost post_id ptype) w = delete_post c post_id ptype w"
| "run_op c (UploadMedia file_path alt_text description) w =
     upload_media c file_path alt_text description w"
| "run_op c (CreateUser uname email pw role) w = create_user c uname email pw role w"
| "run_op c (UpdateUser user_id email role) w = update_user c user_id email role w"
| "run_op c (DeleteUser user_id reassign) w = delete_user c user_id reassign w"
| "run_op c (BackupSite backup_path) w = backup_site c backup_path w"
| "run_op c (GenerateArticle topic len) w = generate_article_with_gemini c topic len w"

text \<open>The caller goes on after a failed call, as one that catches the exception would.\<close>

fun run_ops :: "client \<Rightarrow> operation list \<Rightarrow> world \<Rightarrow> client \<times> world" where
  "run_ops c [] w = (c, w)"
| "run_ops c (x # xs) w = (case run_op c x w of (_, c1, w1) \<Rightarrow> run_ops c1 xs w1)"

definition is_json_op :: "operation \<Rightarrow> bool" where
  "is_json_op x =
     (case x of
        UploadMedia _ _ _ \<Rightarrow> False
      | BackupSite _ \<Rightarrow> False
      | GenerateArticle _ _ \<Rightarrow> False
      | _ \<Rightarrow> True)"

section \<open>Sample inputs\<close>

text \<open>A complete configuration, one without the site URL, and one with an empty password.\<close>

definition sample_env :: "string \<Rightarrow> string option" where
  "sample_env =
     map_of [(''WORDPRESS_URL'', ''https://example.org/''),
             (''WORDPRESS_USERNAME'', ''admin''),
             (''WORDPRESS_PASSWORD'', ''secret''),
             (''GEMINI_API_KEY'', ''key'')]"

definition sample_env_without_url :: "string \<Rightarrow> string option" where
  "sample_env_without_url =
     map_of [(''WORDPRESS_USERNAME'', ''admin''),
             (''WORDPRESS_PASSWORD'', ''secret''),
             (''GEMINI_API_KEY'', ''key'')]"

definition sample_env_empty_password :: "string \<Rightarrow> string option" where
  "sample_env_empty_password =
     map_of [(''WORDPRESS_URL'', ''https://example.org/''),
             (''WORDPRESS_USERNAME'', ''admin''),
             (''WORDPRESS_PASSWORD'', []),
             (''GEMINI_API_KEY'', ''key'')]"

text \<open>The client as \<open>__init__\<close> leaves it just before \<open>authenticate\<close>, and at its end.\<close>

definition fresh_client :: client where
  "fresh_client =
     \<lparr>site_url = ''https://example.org'',
      api_url = ''https://example.org/wp-json/wp/v2'',
      jwt_url = ''https://example.org/wp-json/jwt-auth/v1/token'',
      username = Some ''admin'', password = Some ''secret'', gemini_api_key = Some ''key'',
      token = JNull, headers = None, gemini_model = None\<rparr>"

definition sample_client :: client where
  "sample_client =
     fresh_client
       \<lparr>token := JStr ''abc'',
        headers := Some [(''Authorization'', ''Bearer abc''),
                         (''Content-Type'', ''application/json'')],
        gemini_model := Some ''gemini-1.5-flash''\<rparr>"

text \<open>
  A world whose server gives the same answer to every request, whose files can all be
  read, whose text service returns a heading, a blank line and a paragraph, and whose clock
  shows 2 January 2025, 03:04:05.
\<close>

lift_definition sample_now :: datetime is "(2025, 1, 2, 3, 4, 5)"
  by simp

definition world_replying :: "reply \<Rightarrow> world" where
  "world_replying rp =
     \<lparr>respond = (\<lambda>_ _. rp),
      sent = [],
      read_file = (\<lambda>_. Inr ''bytes''),
      genai_configure = (\<lambda>_. None),
      generate_content = (\<lambda>_ _. Inr (''# Judul'' @ [CHR 0x0A, CHR 0x0A] @ ''Isi'')),
      now = sample_now,
      str_title = ascii_title,
      files = Map.empty\<rparr>"

definition sample_world :: world where
  "sample_world = world_replying (Reply 200 (Some (JDict [(''token'', JStr ''abc'')])))"

section \<open>The specification's reading of a generated article\<close>

text \<open>
  This definition follows the wording of the specification, not the code: when the first
  line starts with the heading marker, the title is that line without its marker and the
  content is the remaining lines; otherwise the title is the titleized topic and the content
  is the whole response. It is compared with \<open>article_of\<close> below.
\<close>

definition spec_article_of ::
  "(string \<Rightarrow> string) \<Rightarrow> string \<Rightarrow> string \<Rightarrow> string \<times> string"
where
  "spec_article_of title_of topic content =
     (case py_split CHR 0x0A content of
        [] \<Rightarrow> (title_of topic, content)
      | line0 # rest \<Rightarrow>
          if startswith_char CHR ''#'' line0
          then (py_strip (dropWhile (\<lambda>c. c = CHR ''#'') line0), py_join [CHR 0x0A] rest)
          else (title_of topic, content))"

section \<open>What one JSON call does\<close>

lemma json_call_effect:
  assumes "json_call m u p c w = (r, c', w')"
  shows "c' = c \<and> sent w' = sent w @ [\<lparr>req_method = m, req_url = u, req_headers = headers c,
                                         req_payload = p, req_timeout = 10\<rparr>]"
  using assms by (auto simp: json_call_def send_def split: prod.splits)

lemma sent_json_call:
  "sent (snd (snd (json_call m u p c w))) =
     sent w @ [\<lparr>req_method = m, req_url = u, req_headers = headers c,
               req_payload = p, req_timeout = 10\<rparr>]"
  by (simp add: json_call_def send_def split: prod.splits)

lemma str_int_digit:
  "str_int 0 = ''0''" "str_int 3 = ''3''" "str_int 5 = ''5''" "str_int 7 = ''7''"
  "str_int 12 = ''12''"
  by (simp_all add: str_int_def str_nat.simps digit_char_def)

section \<open>Construction\<close>

text \<open>
  Whatever is missing, construction sends nothing. With the site URL present, an empty or
  missing value is reported by \<open>_validate_config\<close> as a \<open>ValueError\<close> naming the key.
\<close>

lemma init_incomplete_config:
  assumes "getenv ''WORDPRESS_URL'' = Some u"
    and "py_rstrip_chars ''/'' u = []
         \<or> getenv ''WORDPRESS_USERNAME'' = None \<or> getenv ''WORDPRESS_USERNAME'' = Some []
         \<or> getenv ''WORDPRESS_PASSWORD'' = None \<or> getenv ''WORDPRESS_PASSWORD'' = Some []
         \<or> getenv ''GEMINI_API_KEY'' = None \<or> getenv ''GEMINI_API_KEY'' = Some []"
  shows "\<exists>key. init getenv w =
           (Inl (ValueError (''Konfigurasi '' @ key @ '' tidak ditemukan di .env'')), w)"
  using assms
  by (auto simp: init_def validate_config_def Let_def split: option.splits)

lemma init_empty_password:
  "init sample_env_empty_password sample_world =
     (Inl (ValueError ''Konfigurasi WORDPRESS_PASSWORD tidak ditemukan di .env''), sample_world)"
  by (simp add: init_def validate_config_def sample_env_empty_password_def
      py_rstrip_chars_def)

lemma init_no_site_url:
  "getenv ''WORDPRESS_URL'' = None \<Longrightarrow> init getenv w = (Inl AttributeError, w)"
  by (simp add: init_def)

text \<open>Construction returns a client only when \<open>authenticate\<close> has succeeded.\<close>

lemma init_needs_authentication:
  assumes "init getenv w = (Inr c, w')"
  shows "\<exists>c0 c1. authenticate c0 w = (Inr (), c1, w')
           \<and> c = c1\<lparr>gemini_model := Some ''gemini-1.5-flash''\<rparr>"
  using assms
  by (auto simp: init_def configure_gemini_def Let_def
           split: option.splits sum.splits prod.splits)

text \<open>
  C1. Construction with a required configuration value missing or empty is to fail with the
  configuration error and without a network call. With \<open>WORDPRESS_URL\<close> missing and the
  three other values set, construction sends nothing, but what it raises is the
  \<open>AttributeError\<close> of \<open>None.rstrip\<close>, not the \<open>ValueError\<close> of the validation.
\<close>

theorem init_without_site_url:
  "init sample_env_without_url sample_world = (Inl AttributeError, sample_world)"
  by (simp add: init_def sample_env_without_url_def)

section \<open>Authentication\<close>

text \<open>
  C2, as the claim states it: a well-formed success whose body lacks the token field is to
  fail, every success is to store a non-empty token, and every response outside 2xx is to
  fail. When the server answers 200 with an empty object, construction succeeds with the
  token \<open>None\<close> and the Authorization value \<open>Bearer None\<close>. When the server answers with
  the status 300 and a token, authentication succeeds: \<open>raise_for_status\<close> raises for the
  statuses from 400 to 599 only.
\<close>

theorem authentication_not_as_claimed:
  "init sample_env (world_replying (Reply 200 (Some (JDict [])))) =
     (Inr (fresh_client
             \<lparr>token := JNull,
              headers := Some [(''Authorization'', ''Bearer None''),
                               (''Content-Type'', ''application/json'')],
              gemini_model := Some ''gemini-1.5-flash''\<rparr>),
      (world_replying (Reply 200 (Some (JDict []))))\<lparr>sent := [auth_request fresh_client]\<rparr>)
   \<and> authenticate fresh_client
         (world_replying (Reply 300 (Some (JDict [(''token'', JStr ''abc'')])))) =
     (Inr (),
      fresh_client
        \<lparr>token := JStr ''abc'',
         headers := Some [(''Authorization'', ''Bearer abc''),
                          (''Content-Type'', ''application/json'')]\<rparr>,
      (world_replying (Reply 300 (Some (JDict [(''token'', JStr ''abc'')]))))
        \<lparr>sent := [auth_request fresh_client]\<rparr>)"
  by (simp add: init_def validate_config_def authenticate_def configure_gemini_def send_def
      checked_json_def world_replying_def py_str_def sample_env_def fresh_client_def
      auth_request_def py_rstrip_chars_def)

text \<open>
  C2, amended. Authentication sends one request and behaves as follows in both directions.
  On each of these failures it fails with the authentication exception and leaves the
  client as it was, so that construction fails: a network error, a response status from
  400 to 599, and a response of any other status whose body is not JSON. A JSON body that is not an
  object also makes it fail and leaves the client as it was. On a response of a status
  outside 400 to 599 whose body is a JSON object it succeeds: it stores the value of the
  object's token field, \<open>None\<close> when the field is absent, and the header set made of the
  Authorization value \<open>Bearer\<close>, a space and \<open>str\<close> of the stored token, and of the JSON
  content type; nothing else in the client changes.
\<close>

theorem authenticate_outcomes:
  assumes "authenticate c w = (r, c', w')"
  shows "sent w' = sent w @ [auth_request c]
    \<and> (\<forall>msg. respond w (sent w) (auth_request c) = NoReply msg \<longrightarrow>
          r = Inl (AuthenticationFailed (ConnectionFailure msg)) \<and> c' = c)
    \<and> (\<forall>st body. respond w (sent w) (auth_request c) = Reply st body
                    \<and> 400 \<le> st \<and> st < 600 \<longrightarrow>
          r = Inl (AuthenticationFailed (HTTPError st)) \<and> c' = c)
    \<and> (\<forall>st. respond w (sent w) (auth_request c) = Reply st None
               \<and> \<not> (400 \<le> st \<and> st < 600) \<longrightarrow>
          r = Inl (AuthenticationFailed JSONDecodeError) \<and> c' = c)
    \<and> (\<forall>st j. respond w (sent w) (auth_request c) = Reply st (Some j)
                 \<and> \<not> (400 \<le> st \<and> st < 600) \<and> (\<forall>kvs. j \<noteq> JDict kvs) \<longrightarrow>
          r = Inl AttributeError \<and> c' = c)
    \<and> (\<forall>st kvs. respond w (sent w) (auth_request c) = Reply st (Some (JDict kvs))
                   \<and> \<not> (400 \<le> st \<and> st < 600) \<longrightarrow>
          r = Inr ()
          \<and> c' = c\<lparr>token := (case map_of kvs ''token'' of None \<Rightarrow> JNull | Some v \<Rightarrow> v),
                    headers :=
                      Some [(''Authorization'',
                             ''Bearer '' @ py_str (case map_of kvs ''token'' of
                                                     None \<Rightarrow> JNull | Some v \<Rightarrow> v)),
                            (''Content-Type'', ''application/json'')]\<rparr>)
    \<and> (r = Inr () \<longrightarrow>
          headers c' = Some [(''Authorization'', ''Bearer '' @ py_str (token c')),
                             (''Content-Type'', ''application/json'')])"
  using assms
  by (auto simp: authenticate_def send_def checked_json_def Let_def
           split: prod.splits sum.splits reply.splits if_splits option.splits json.splits)

theorem authenticate_outcomes_witness:
  "fst (authenticate fresh_client sample_world) = Inr ()
   \<and> fst (snd (authenticate fresh_client sample_world)) =
       fresh_client
         \<lparr>token := JStr ''abc'',
          headers := Some [(''Authorization'', ''Bearer abc''),
                           (''Content-Type'', ''application/json'')]\<rparr>
   \<and> sent (snd (snd (authenticate fresh_client sample_world))) = [auth_request fresh_client]
   \<and> fst (authenticate fresh_client (world_replying (NoReply ''timed out''))) =
        Inl (AuthenticationFailed (ConnectionFailure ''timed out''))
   \<and> fst (authenticate fresh_client (world_replying (Reply 403 None))) =
        Inl (AuthenticationFailed (HTTPError 403))
   \<and> fst (authenticate fresh_client (world_replying (Reply 200 None))) =
        Inl (AuthenticationFailed JSONDecodeError)
   \<and> fst (authenticate fresh_client (world_replying (Reply 200 (Some (JList []))))) =
        Inl AttributeError"
proof -
  let ?ok = "authenticate fresh_client sample_world"
  let ?down = "authenticate fresh_client (world_replying (NoReply ''timed out''))"
  let ?denied = "authenticate fresh_client (world_replying (Reply 403 None))"
  let ?html = "authenticate fresh_client (world_replying (Reply 200 None))"
  let ?array = "authenticate fresh_client (world_replying (Reply 200 (Some (JList []))))"
  have ok: "?ok = (fst ?ok, fst (snd ?ok), snd (snd ?ok))" by simp
  have down: "?down = (fst ?down, fst (snd ?down), snd (snd ?down))" by simp
  have denied: "?denied = (fst ?denied, fst (snd ?denied), snd (snd ?denied))" by simp
  have html: "?html = (fst ?html, fst (snd ?html), snd (snd ?html))" by simp
  have array: "?array = (fst ?array, fst (snd ?array), snd (snd ?array))" by simp
  show ?thesis
    using authenticate_outcomes [OF ok] authenticate_outcomes [OF down]
      authenticate_outcomes [OF denied] authenticate_outcomes [OF html]
      authenticate_outcomes [OF array]
    by (simp add: sample_world_def world_replying_def py_str_def)
qed

section \<open>Request bodies and URLs\<close>

text \<open>
  C3. A \<open>create_post\<close> call that leaves \<open>categories\<close> and \<open>featured_image_id\<close> at
  \<open>None\<close> sends a body with exactly the fields title, content, status and type, in that
  order, whatever the status and the post type; with the defaults of the signature the
  request goes to the posts collection with the session headers.
\<close>

theorem create_post_minimal_body:
  "create_post_data title content None None status post_type =
     [(''title'', JStr title), (''content'', JStr content),
      (''status'', JStr status), (''type'', JStr post_type)]
   \<and> map fst (create_post_data title content None None status post_type) =
       [''title'', ''content'', ''status'', ''type'']
   \<and> sent (snd (snd (create_post c title content None None ''publish'' ''post'' w))) =
       sent w @ [\<lparr>req_method = POST, req_url = api_url c @ ''/posts'',
                 req_headers = headers c,
                 req_payload = JsonPayload [(''title'', JStr title), (''content'', JStr content),
                                            (''status'', JStr ''publish''),
                                            (''type'', JStr ''post'')],
                 req_timeout = 10\<rparr>]"
  by (simp add: create_post_def create_post_data_def sent_json_call)

text \<open>
  C4, as the claim states it: every \<open>update_post\<close> call that supplies a
  \<open>featured_image_id\<close> and nothing else sends a body with the one field
  \<open>featured_media\<close>. With \<open>featured_image_id=0\<close> the body sent is empty.
\<close>

theorem update_post_image_zero:
  "map req_payload
     (sent (snd (snd (update_post sample_client 12 ''post'' None None None (Some 0)
                        sample_world)))) = [JsonPayload []]
   \<and> update_post_data None None None (Some 0) \<noteq> [(''featured_media'', JInt 0)]"
  by (simp add: update_post_def update_post_data_def sent_json_call sample_world_def
      world_replying_def)

text \<open>
  C4, amended. Every \<open>update_post\<close> call that supplies a \<open>featured_image_id\<close> other
  than zero, and no title, content or categories, sends a body with exactly one field,
  \<open>featured_media\<close>, holding that id.
\<close>

theorem update_post_image_only:
  assumes "i \<noteq> 0"
  shows "update_post_data None None None (Some i) = [(''featured_media'', JInt i)]
    \<and> sent (snd (snd (update_post c post_id post_type None None None (Some i) w))) =
        sent w @ [\<lparr>req_method = POST,
                  req_url = api_url c @ ''/'' @ post_type @ ''s/'' @ str_int post_id,
                  req_headers = headers c,
                  req_payload = JsonPayload [(''featured_media'', JInt i)],
                  req_timeout = 10\<rparr>]"
  using assms by (simp add: update_post_def update_post_data_def sent_json_call)

theorem update_post_image_only_witness:
  "(7::int) \<noteq> 0
   \<and> map req_payload
       (sent (snd (snd (update_post sample_client 12 ''post'' None None None (Some 7)
                          sample_world)))) = [JsonPayload [(''featured_media'', JInt 7)]]"
proof -
  have h: "(7::int) \<noteq> 0" by simp
  show ?thesis
    using update_post_image_only [OF h, of sample_client 12 "''post''" sample_world]
    by (simp add: sample_world_def world_replying_def)
qed

text \<open>
  C5, as the claim states it: whenever \<open>reassign\<close> is supplied the URL ends in
  \<open>?reassign=<value>\<close>. With \<open>reassign=0\<close> the URL requested has no query string.
\<close>

theorem delete_user_reassign_zero:
  "map req_url (sent (snd (snd (delete_user sample_client 3 (Some 0) sample_world)))) =
     [''https://example.org/wp-json/wp/v2/users/3'']
   \<and> delete_user_url sample_client 3 (Some 0) \<noteq>
       delete_user_url sample_client 3 None @ ''?reassign=0''"
  by (simp add: delete_user_def delete_user_url_def sent_json_call sample_world_def
      world_replying_def sample_client_def fresh_client_def str_int_digit)

text \<open>
  C5, amended. \<open>delete_user\<close> sends one DELETE request. When \<open>reassign\<close> is supplied and
  is not zero, its URL is the user's URL followed by \<open>?reassign=\<close> and the value in decimal
  (\<open>?reassign=5\<close> for 5); when \<open>reassign\<close> is not supplied, it is the user's URL with
  nothing appended.
\<close>

theorem delete_user_query:
  "sent (snd (snd (delete_user c user_id reassign w))) =
     sent w @ [\<lparr>req_method = DELETE, req_url = delete_user_url c user_id reassign,
               req_headers = headers c, req_payload = NoPayload, req_timeout = 10\<rparr>]
   \<and> (r \<noteq> 0 \<longrightarrow> delete_user_url c user_id (Some r) =
                   api_url c @ ''/users/'' @ str_int user_id @ ''?reassign='' @ str_int r)
   \<and> delete_user_url c user_id (Some 5) =
       api_url c @ ''/users/'' @ str_int user_id @ ''?reassign=5''
   \<and> delete_user_url c user_id None = api_url c @ ''/users/'' @ str_int user_id"
  by (simp add: delete_user_url_def delete_user_def sent_json_call str_int_digit)

theorem delete_user_query_witness:
  "(7::int) \<noteq> 0
   \<and> map req_url (sent (snd (snd (delete_user sample_client 3 (Some 7) sample_world)))) =
       [''https://example.org/wp-json/wp/v2/users/3?reassign=7'']"
  using delete_user_query [of sample_client 3 "Some 7" sample_world 7]
  by (simp add: sample_world_def world_replying_def sample_client_def fresh_client_def
      str_int_digit)

subsection \<open>Falsy arguments\<close>

lemma keys_dict_set: "fst ` set (dict_set d k v) = insert k (fst ` set d)"
  by (induction d k v rule: dict_set.induct) auto

lemma update_post_no_title:
  "''title'' \<notin> fst ` set (update_post_data None content categories img)"
  by (cases content; cases categories; cases img; simp add: update_post_data_def Let_def keys_dict_set)

lemma update_post_no_content:
  "''content'' \<notin> fst ` set (update_post_data title None categories img)"
  by (cases title; cases categories; cases img; simp add: update_post_data_def Let_def keys_dict_set)

lemma update_post_no_categories:
  "''categories'' \<notin> fst ` set (update_post_data title content None img)"
  by (cases title; cases content; cases img; simp add: update_post_data_def Let_def keys_dict_set)

lemma update_post_no_image:
  "''featured_media'' \<notin> fst ` set (update_post_data title content categories None)"
  by (cases title; cases content; cases categories; simp add: update_post_data_def Let_def keys_dict_set)

lemma create_post_no_categories:
  "''categories'' \<notin> fst ` set (create_post_data t b None img status ptype)"
  by (cases img; simp add: create_post_data_def Let_def keys_dict_set)

lemma create_post_no_image:
  "''featured_media'' \<notin> fst ` set (create_post_data t b categories None status ptype)"
  by (cases categories; simp add: create_post_data_def Let_def keys_dict_set)

lemma falsy_is_omitted:
  "update_post_data (Some []) content categories img = update_post_data None content categories img"
  "update_post_data title (Some []) categories img = update_post_data title None categories img"
  "update_post_data title content (Some []) img = update_post_data title content None img"
  "update_post_data title content categories (Some 0) = update_post_data title content categories None"
  "create_post_data t b (Some []) img status ptype = create_post_data t b None img status ptype"
  "create_post_data t b categories (Some 0) status ptype = create_post_data t b categories None status ptype"
  by (simp_all add: update_post_data_def create_post_data_def)

text \<open>
  C10. A falsy optional argument is treated as an omitted one: \<open>update_post\<close> with an empty
  title, an empty content, an empty category list or the image id 0 builds the body it
  builds without that argument, and that body has no such field; \<open>create_post\<close> does the
  same for an empty category list and the image id 0; \<open>delete_user\<close> with \<open>reassign=0\<close>
  requests the URL it requests without \<open>reassign\<close>, the user's URL with no query string.
\<close>

theorem falsy_arguments_omitted:
  "update_post_data (Some []) content categories img =
     update_post_data None content categories img
   \<and> ''title'' \<notin> fst ` set (update_post_data (Some []) content categories img)
   \<and> update_post_data title (Some []) categories img =
       update_post_data title None categories img
   \<and> ''content'' \<notin> fst ` set (update_post_data title (Some []) categories img)
   \<and> update_post_data title content (Some []) img = update_post_data title content None img
   \<and> ''categories'' \<notin> fst ` set (update_post_data title content (Some []) img)
   \<and> update_post_data title content categories (Some 0) =
       update_post_data title content categories None
   \<and> ''featured_media'' \<notin> fst ` set (update_post_data title content categories (Some 0))
   \<and> create_post_data t b (Some []) img status ptype =
       create_post_data t b None img status ptype
   \<and> ''categories'' \<notin> fst ` set (create_post_data t b (Some []) img status ptype)
   \<and> create_post_data t b categories (Some 0) status ptype =
       create_post_data t b categories None status ptype
   \<and> ''featured_media'' \<notin> fst ` set (create_post_data t b categories (Some 0) status ptype)
   \<and> delete_user_url c user_id (Some 0) = delete_user_url c user_id None
   \<and> delete_user_url c user_id (Some 0) = api_url c @ ''/users/'' @ str_int user_id
   \<and> req_url (last (sent (snd (snd (delete_user c user_id (Some 0) w))))) =
       api_url c @ ''/users/'' @ str_int user_id"
  using update_post_no_title [of content categories img]
    update_post_no_content [of title categories img]
    update_post_no_categories [of title content img]
    update_post_no_image [of title content categories]
    create_post_no_categories [of t b img status ptype]
    create_post_no_image [of t b categories status ptype]
  by (simp add: falsy_is_omitted delete_user_url_def delete_user_def sent_json_call)

section \<open>Media upload\<close>

text \<open>
  C6. An \<open>upload_media\<close> call sends at most one request, and the request it sends carries
  exactly one header, the Authorization value of the session header set; the session's
  Content-Type entry is not in it.
\<close>

theorem upload_media_headers:
  assumes "upload_media c file_path alt_text description w = (r, c', w')"
  shows "sent w' = sent w \<or>
         (\<exists>hs auth content.
            headers c = Some hs \<and> map_of hs ''Authorization'' = Some auth
            \<and> read_file w file_path = Inr content
            \<and> sent w' = sent w @
                 [\<lparr>req_method = POST, req_url = api_url c @ ''/media'',
                   req_headers = Some [(''Authorization'', auth)],
                   req_payload = MultipartPayload [(''file'', basename file_path, content)]
                                   [(''alt_text'', alt_text), (''description'', description)],
                   req_timeout = 15\<rparr>])"
  using assms
  by (auto simp: upload_media_def send_def Let_def split: option.splits sum.splits prod.splits)

theorem upload_media_headers_witness:
  "map req_headers
     (sent (snd (snd (upload_media sample_client ''img/a.jpg'' ''alt'' ''desc'' sample_world)))) =
     [Some [(''Authorization'', ''Bearer abc'')]]"
proof -
  let ?run = "upload_media sample_client ''img/a.jpg'' ''alt'' ''desc'' sample_world"
  have run: "?run = (fst ?run, fst (snd ?run), snd (snd ?run))" by simp
  have "sent (snd (snd ?run)) \<noteq> sent sample_world"
    by (simp add: upload_media_def send_def sample_client_def fresh_client_def
        sample_world_def world_replying_def)
  with upload_media_headers [OF run] show ?thesis
    by (auto simp: sample_client_def fresh_client_def sample_world_def world_replying_def)
qed

section \<open>Article generation\<close>

lemma py_split_nonempty: "py_split sep s \<noteq> []"
  by (induction s) (auto split: list.splits)

lemma py_join_Cons: "rest \<noteq> [] \<Longrightarrow> py_join sep (x # rest) = x @ sep @ py_join sep rest"
  by (cases rest) simp_all

text \<open>Joining the pieces of a split with the separator gives the string back.\<close>

lemma py_join_split: "py_join [sep] (py_split sep s) = s"
proof (induction s)
  case Nil
  then show ?case by simp
next
  case (Cons c cs)
  obtain l ls where pieces: "py_split sep cs = l # ls"
    using py_split_nonempty [of sep cs] by (cases "py_split sep cs") auto
  show ?case
  proof (cases "c = sep")
    case True
    then show ?thesis using Cons.IH py_split_nonempty [of sep cs]
      by (simp add: py_join_Cons)
  next
    case False
    then show ?thesis using Cons.IH pieces
      by (cases ls) simp_all
  qed
qed

lemma word_count_table:
  "word_count ''short'' = 200 \<and> word_count ''medium'' = 500 \<and> word_count ''long'' = 1000
   \<and> (len \<notin> {''short'', ''medium'', ''long''} \<longrightarrow> word_count len = 500)"
  by (simp add: word_count_def length_map_def)

text \<open>
  C7, as the claim states it: under a heading the title is the first line without its
  marker and the content is the remaining lines. For the response \<open># C#\<close>, a blank line,
  \<open>Isi\<close>, the method returns the title \<open>C\<close> and the content \<open>Isi\<close>: the \<open>#\<close> that ends
  the title is stripped with the marker, and the blank line that starts the remaining lines
  is trimmed away.
\<close>

theorem heading_title_differs:
  "article_of ascii_title ''bahasa c#'' (''# C#'' @ [CHR 0x0A, CHR 0x0A] @ ''Isi'') =
     (''C'', ''Isi'')
   \<and> spec_article_of ascii_title ''bahasa c#'' (''# C#'' @ [CHR 0x0A, CHR 0x0A] @ ''Isi'') =
       (''C#'', CHR 0x0A # ''Isi'')
   \<and> article_of ascii_title ''bahasa c#'' (''# C#'' @ [CHR 0x0A, CHR 0x0A] @ ''Isi'') \<noteq>
       spec_article_of ascii_title ''bahasa c#'' (''# C#'' @ [CHR 0x0A, CHR 0x0A] @ ''Isi'')
   \<and> fst (generate_article_with_gemini sample_client ''bahasa c#'' ''medium''
            (sample_world\<lparr>generate_content :=
                             \<lambda>_ _. Inr (''# C#'' @ [CHR 0x0A, CHR 0x0A] @ ''Isi'')\<rparr>)) =
       Inr (JDict [(''title'', JStr ''C''), (''content'', JStr ''Isi'')])"
  by (simp add: generate_article_with_gemini_def sample_client_def article_of_def
      spec_article_of_def startswith_char_def py_strip_def py_strip_chars_def
      py_lstrip_chars_def py_rstrip_chars_def py_isspace_def)

text \<open>
  C7, amended. The word count is 200, 500 and 1000 for short, medium and long, and 500 for
  any other length, and it is the count named in the prompt handed to the service. When the
  service fails, its error is raised again. When the service returns a text, the method
  returns a title and a content: if the first line of the text starts with \<open>#\<close>, the title
  is that line with every leading and trailing \<open>#\<close> and space removed and then trimmed of
  white space, and the content is the remaining lines joined by newlines and trimmed of
  white space at both ends; otherwise the title is \<open>str.title\<close> of the topic and the
  content is the whole text.
\<close>

theorem generate_article_result:
  "word_count ''short'' = 200 \<and> word_count ''medium'' = 500 \<and> word_count ''long'' = 1000
   \<and> (len \<notin> {''short'', ''medium'', ''long''} \<longrightarrow> word_count len = 500)
   \<and> article_prompt topic len =
       ''Buat artikel dalam bahasa Indonesia tentang '' @ [CHR 0x27] @ topic @ [CHR 0x27]
         @ '' dengan panjang sekitar '' @ str_int (word_count len) @ '' kata. ''
         @ ''Gunakan gaya penulisan yang informatif dan menarik, cocok untuk blog WordPress. ''
         @ ''Sertakan judul yang relevan dan konten yang terstruktur dengan paragraf yang jelas.''
   \<and> (gemini_model c = Some model
        \<and> generate_content w model (article_prompt topic len) = Inl e \<longrightarrow>
      generate_article_with_gemini c topic len w = (Inl e, c, w))
   \<and> (gemini_model c = Some model
        \<and> generate_content w model (article_prompt topic len) = Inr body \<longrightarrow>
      (\<exists>line0 rest.
          py_split CHR 0x0A body = line0 # rest \<and> py_join [CHR 0x0A] (line0 # rest) = body \<and>
          generate_article_with_gemini c topic len w =
            (Inr (JDict
               [(''title'', JStr (if startswith_char CHR ''#'' line0
                                  then py_strip (py_strip_chars ''# '' line0)
                                  else str_title w topic)),
                (''content'', JStr (if startswith_char CHR ''#'' line0
                                    then py_strip (py_join [CHR 0x0A] rest)
                                    else body))]),
             c, w)))"
proof -
  obtain line0 rest where pieces: "py_split CHR 0x0A body = line0 # rest"
    using py_split_nonempty [of "CHR 0x0A" body] by (cases "py_split CHR 0x0A body") auto
  have joined: "py_join [CHR 0x0A] (line0 # rest) = body"
    using py_join_split [of "CHR 0x0A" body] pieces by simp
  have prompt: "article_prompt topic len =
       ''Buat artikel dalam bahasa Indonesia tentang '' @ [CHR 0x27] @ topic @ [CHR 0x27]
         @ '' dengan panjang sekitar '' @ str_int (word_count len) @ '' kata. ''
         @ ''Gunakan gaya penulisan yang informatif dan menarik, cocok untuk blog WordPress. ''
         @ ''Sertakan judul yang relevan dan konten yang terstruktur dengan paragraf yang jelas.''"
    by (simp only: article_prompt_def)
  have failing: "gemini_model c = Some model
        \<and> generate_content w model (article_prompt topic len) = Inl e \<longrightarrow>
      generate_article_with_gemini c topic len w = (Inl e, c, w)"
    by (simp add: generate_article_with_gemini_def)
  have returning: "gemini_model c = Some model
        \<and> generate_content w model (article_prompt topic len) = Inr body \<longrightarrow>
      generate_article_with_gemini c topic len w =
            (Inr (JDict
               [(''title'', JStr (if startswith_char CHR ''#'' line0
                                  then py_strip (py_strip_chars ''# '' line0)
                                  else str_title w topic)),
                (''content'', JStr (if startswith_char CHR ''#'' line0
                                    then py_strip (py_join [CHR 0x0A] rest)
                                    else body))]),
             c, w)"
    using pieces by (simp add: generate_article_with_gemini_def article_of_def)
  from pieces joined returning have last:
    "gemini_model c = Some model
        \<and> generate_content w model (article_prompt topic len) = Inr body \<longrightarrow>
      (\<exists>line0 rest.
          py_split CHR 0x0A body = line0 # rest \<and> py_join [CHR 0x0A] (line0 # rest) = body \<and>
          generate_article_with_gemini c topic len w =
            (Inr (JDict
               [(''title'', JStr (if startswith_char CHR ''#'' line0
                                  then py_strip (py_strip_chars ''# '' line0)
                                  else str_title w topic)),
                (''content'', JStr (if startswith_char CHR ''#'' line0
                                    then py_strip (py_join [CHR 0x0A] rest)
                                    else body))]),
             c, w))"
    by blast
  have counts: "word_count ''short'' = 200" "word_count ''medium'' = 500"
    "word_count ''long'' = 1000"
    "len \<notin> {''short'', ''medium'', ''long''} \<longrightarrow> word_count len = 500"
    using word_count_table [of len] by blast+
  show ?thesis
    by (intro conjI counts prompt failing last)
qed

text \<open>The title function of the sample world on the sample topic.\<close>

lemma ascii_title_sample: "ascii_title ''manfaat teknologi'' = ''Manfaat Teknologi''"
  by code_simp

theorem generate_article_result_witness:
  "word_count ''bogus'' = 500
   \<and> fst (generate_article_with_gemini sample_client ''manfaat teknologi'' ''bogus''
            sample_world) =
       Inr (JDict [(''title'', JStr ''Judul''), (''content'', JStr ''Isi'')])
   \<and> fst (generate_article_with_gemini sample_client ''manfaat teknologi'' ''bogus''
            (sample_world\<lparr>generate_content := \<lambda>_ _. Inr ''Isi saja''\<rparr>)) =
       Inr (JDict [(''title'', JStr ''Manfaat Teknologi''), (''content'', JStr ''Isi saja'')])
   \<and> fst (generate_article_with_gemini sample_client ''manfaat teknologi'' ''bogus''
            (sample_world\<lparr>generate_content := \<lambda>_ _. Inl (GeminiError ''quota'')\<rparr>)) =
       Inl (GeminiError ''quota'')"
proof -
  let ?plain = "sample_world\<lparr>generate_content := \<lambda>_ _. Inr ''Isi saja''\<rparr>"
  let ?failing = "sample_world\<lparr>generate_content := \<lambda>_ _. Inl (GeminiError ''quota'')\<rparr>"
  have m: "gemini_model sample_client = Some ''gemini-1.5-flash''"
    by (simp add: sample_client_def)
  have g: "generate_content sample_world ''gemini-1.5-flash''
             (article_prompt ''manfaat teknologi'' ''bogus'') =
           Inr (''# Judul'' @ [CHR 0x0A, CHR 0x0A] @ ''Isi'')"
    by (simp add: sample_world_def world_replying_def)
  have g2: "generate_content ?plain ''gemini-1.5-flash''
             (article_prompt ''manfaat teknologi'' ''bogus'') = Inr ''Isi saja''"
    by simp
  have g3: "generate_content ?failing ''gemini-1.5-flash''
             (article_prompt ''manfaat teknologi'' ''bogus'') = Inl (GeminiError ''quota'')"
    by simp
  have t: "str_title ?plain = ascii_title"
    by (simp add: sample_world_def world_replying_def)
  have s: "py_split CHR 0x0A (''# Judul'' @ [CHR 0x0A, CHR 0x0A] @ ''Isi'') =
             [''# Judul'', [], ''Isi'']"
    by simp
  have s2: "py_split CHR 0x0A ''Isi saja'' = [''Isi saja'']"
    by simp
  have heading: "fst (generate_article_with_gemini sample_client ''manfaat teknologi''
                        ''bogus'' sample_world) =
       Inr (JDict [(''title'', JStr ''Judul''), (''content'', JStr ''Isi'')])"
    using generate_article_result
            [of "''bogus''" "''manfaat teknologi''" sample_client "''gemini-1.5-flash''"
               sample_world "GeminiError []" "''# Judul'' @ [CHR 0x0A, CHR 0x0A] @ ''Isi''"]
          m g
    unfolding s
    by (simp add: startswith_char_def py_strip_def py_strip_chars_def py_lstrip_chars_def
        py_rstrip_chars_def py_isspace_def)
  have plain: "fst (generate_article_with_gemini sample_client ''manfaat teknologi''
                      ''bogus'' ?plain) =
       Inr (JDict [(''title'', JStr ''Manfaat Teknologi''), (''content'', JStr ''Isi saja'')])"
    using generate_article_result
            [of "''bogus''" "''manfaat teknologi''" sample_client "''gemini-1.5-flash''"
               ?plain "GeminiError []" "''Isi saja''"]
          m g2
    unfolding s2 t
    by (simp add: startswith_char_def ascii_title_sample)
  have failing: "fst (generate_article_with_gemini sample_client ''manfaat teknologi''
                        ''bogus'' ?failing) = Inl (GeminiError ''quota'')"
    using generate_article_result
            [of "''bogus''" "''manfaat teknologi''" sample_client "''gemini-1.5-flash''"
               ?failing "GeminiError ''quota''" "[]"]
          m g3
    by simp
  have count: "word_count ''bogus'' = 500"
    using generate_article_result
            [of "''bogus''" "''manfaat teknologi''" sample_client "''gemini-1.5-flash''"
               sample_world "GeminiError []" "[]"]
    by simp
  from count heading plain failing show ?thesis by simp
qed

section \<open>Backup\<close>

subsection \<open>The time stamp\<close>

lemma datetime_ranges:
  "1000 \<le> year t \<and> year t \<le> 9999 \<and> 1 \<le> month t \<and> month t \<le> 12 \<and> 1 \<le> day t
   \<and> day t \<le> 31 \<and> hour t \<le> 23 \<and> minute t \<le> 59 \<and> second t \<le> 59"
  by transfer auto

lemma str_nat_one_digit: "n < 10 \<Longrightarrow> str_nat n = [digit_char n]"
  by (subst str_nat.simps) simp

lemma str_nat_two_digits:
  "10 \<le> n \<Longrightarrow> n < 100 \<Longrightarrow> str_nat n = [digit_char (n div 10), digit_char (n mod 10)]"
  by (subst str_nat.simps) (simp add: str_nat_one_digit)

lemma str_nat_four_digits:
  assumes "1000 \<le> n" and "n \<le> 9999"
  shows "str_nat n = [digit_char (n div 1000), digit_char (n div 100 mod 10),
                      digit_char (n div 10 mod 10), digit_char (n mod 10)]"
proof -
  have a: "\<not> n < 10" "\<not> n div 10 < 10" "\<not> n div 10 div 10 < 10" "n div 10 div 10 div 10 < 10"
    using assms by auto
  have b: "n div 10 div 10 div 10 = n div 1000" "n div 10 div 10 = n div 100"
    "n div 100 div 10 = n div 1000"
    by (simp_all add: div_mult2_eq [symmetric])
  have "str_nat n = str_nat (n div 10) @ [digit_char (n mod 10)]"
    using a(1) by (subst str_nat.simps) simp
  also have "str_nat (n div 10) = str_nat (n div 10 div 10) @ [digit_char (n div 10 mod 10)]"
    using a(2) by (subst str_nat.simps) simp
  also have "str_nat (n div 10 div 10) =
      str_nat (n div 10 div 10 div 10) @ [digit_char (n div 10 div 10 mod 10)]"
    using a(3) by (subst str_nat.simps) simp
  also have "str_nat (n div 10 div 10 div 10) = [digit_char (n div 10 div 10 div 10)]"
    using a(4) by (rule str_nat_one_digit)
  finally show ?thesis by (simp add: b)
qed

lemma zero_digit: "CHR ''0'' = digit_char 0"
  by (simp add: digit_char_def)

lemma two_digit_field:
  assumes "n < 100"
  shows "zfill 2 (str_nat n) = [digit_char (n div 10), digit_char (n mod 10)]"
proof (cases "n < 10")
  case True
  then show ?thesis by (simp add: zfill_def str_nat_one_digit zero_digit)
next
  case False
  with assms show ?thesis by (simp add: zfill_def str_nat_two_digits)
qed

text \<open>The stamp is the decimal digits of the clock's six fields, in \<open>strftime\<close>'s order.\<close>

lemma stamp_digits:
  "strftime_stamp t =
     map digit_char
       [year t div 1000, year t div 100 mod 10, year t div 10 mod 10, year t mod 10,
        month t div 10, month t mod 10, day t div 10, day t mod 10]
     @ ''_''
     @ map digit_char
         [hour t div 10, hour t mod 10, minute t div 10, minute t mod 10,
          second t div 10, second t mod 10]"
proof -
  have r: "1000 \<le> year t" "year t \<le> 9999" "month t < 100" "day t < 100" "hour t < 100"
    "minute t < 100" "second t < 100"
    using datetime_ranges [of t] by auto
  show ?thesis
    unfolding strftime_stamp_def
    by (simp add: str_nat_four_digits [OF r(1,2)] two_digit_field [OF r(3)]
        two_digit_field [OF r(4)] two_digit_field [OF r(5)] two_digit_field [OF r(6)]
        two_digit_field [OF r(7)])
qed

lemma sample_now_fields:
  "year sample_now = 2025" "month sample_now = 1" "day sample_now = 2"
  "hour sample_now = 3" "minute sample_now = 4" "second sample_now = 5"
  by (transfer, simp)+

lemma sample_backup_name: "backup_name sample_now = ''backup_20250102_030405.zip''"
  by (simp add: backup_name_def stamp_digits sample_now_fields digit_char_def)

subsection \<open>Creating the directories\<close>

lemma make_dirs_frame:
  "make_dirs fs p n = Inr fs1 \<Longrightarrow> fs1 q \<noteq> fs q \<Longrightarrow>
     fs q = None \<and> fs1 q = Some Dir \<and> (\<exists>k. 0 < k \<and> k \<le> n \<and> q = (fst p, take k (snd p)))"
proof (induction n arbitrary: fs1)
  case 0
  then show ?case by simp
next
  case (Suc n)
  from Suc.prems(1) obtain fs0 where inner: "make_dirs fs p n = Inr fs0"
    by (auto split: sum.splits)
  let ?q = "(fst p, take (Suc n) (snd p))"
  from Suc.prems(1) inner have step: "fs1 = fs0 \<or> (node_at fs0 ?q = None \<and> fs1 = fs0(?q \<mapsto> Dir))"
    by (auto simp: Let_def split: option.splits node.splits)
  show ?case
  proof (cases "fs0 q = fs q")
    case True
    with step Suc.prems(2) have new: "node_at fs0 ?q = None" "fs1 = fs0(?q \<mapsto> Dir)" "q = ?q"
      by (auto split: if_splits)
    from new(1) have "fs0 ?q = None" by (simp add: node_at_def split: if_splits)
    with True new show ?thesis by auto
  next
    case False
    from Suc.IH [OF inner False] obtain k where
      k: "fs q = None" "fs0 q = Some Dir" "0 < k" "k \<le> n" "q = (fst p, take k (snd p))"
      by auto
    from step k(2) have "fs1 q = Some Dir" by auto
    with k show ?thesis by (intro conjI exI [of _ k]) auto
  qed
qed

lemma make_dirs_dirs:
  "make_dirs fs p n = Inr fs1 \<Longrightarrow> k \<le> n \<Longrightarrow>
     node_at fs1 (fst p, take k (snd p)) = Some Dir"
proof (induction n arbitrary: fs1)
  case 0
  then show ?case by (simp add: node_at_def)
next
  case (Suc n)
  from Suc.prems(1) obtain fs0 where inner: "make_dirs fs p n = Inr fs0"
    by (auto split: sum.splits)
  let ?q = "(fst p, take (Suc n) (snd p))"
  from Suc.prems(1) inner have step:
    "(fs1 = fs0 \<and> node_at fs0 ?q = Some Dir) \<or> fs1 = fs0(?q \<mapsto> Dir)"
    by (auto simp: Let_def split: option.splits node.splits)
  have top: "node_at fs1 ?q = Some Dir" using step by (auto simp: node_at_def)
  show ?case
  proof (cases "k = Suc n")
    case True
    with top show ?thesis by simp
  next
    case False
    with Suc.prems(2) have "k \<le> n" by simp
    from Suc.IH [OF inner this] have "node_at fs0 (fst p, take k (snd p)) = Some Dir" .
    with step show ?thesis by (auto simp: node_at_def)
  qed
qed

lemma make_dirs_succeeds:
  "(\<forall>k t. 0 < k \<longrightarrow> k \<le> n \<longrightarrow> fs (fst p, take k (snd p)) \<noteq> Some (File t)) \<Longrightarrow>
     \<exists>fs1. make_dirs fs p n = Inr fs1"
proof (induction n)
  case 0
  then show ?case by simp
next
  case (Suc n)
  then obtain fs0 where inner: "make_dirs fs p n = Inr fs0" by auto
  let ?q = "(fst p, take (Suc n) (snd p))"
  have "fs0 ?q \<noteq> Some (File t)" for t
  proof (cases "fs0 ?q = fs ?q")
    case True
    with Suc.prems show ?thesis by auto
  next
    case False
    from make_dirs_frame [OF inner False] show ?thesis by simp
  qed
  then have "node_at fs0 ?q \<noteq> Some (File t)" for t
    by (simp add: node_at_def)
  with inner show ?case
    by (auto simp: Let_def split: option.splits node.splits)
qed

text \<open>
  C8, as the claim states it: every call creates the directory, writes the file and returns
  its path. When a regular file stands at the backup path, the call raises
  \<open>FileExistsError\<close> and the file system is as it was; when a directory has the name of the
  backup file, the call raises \<open>IsADirectoryError\<close> and the file system is as it was.
\<close>

theorem backup_site_blocked:
  "fst (backup_site sample_client ''/tmp/b''
          (sample_world\<lparr>files := [(''/'', [''tmp'']) \<mapsto> Dir,
                                   (''/'', [''tmp'', ''b'']) \<mapsto> File ''x'']\<rparr>)) =
     Inl (OSError FileExistsError)
   \<and> files (snd (snd (backup_site sample_client ''/tmp/b''
          (sample_world\<lparr>files := [(''/'', [''tmp'']) \<mapsto> Dir,
                                   (''/'', [''tmp'', ''b'']) \<mapsto> File ''x'']\<rparr>)))) =
       [(''/'', [''tmp'']) \<mapsto> Dir, (''/'', [''tmp'', ''b'']) \<mapsto> File ''x'']
   \<and> fst (backup_site sample_client ''/tmp/b''
          (sample_world\<lparr>files := [(''/'', [''tmp'']) \<mapsto> Dir,
                                   (''/'', [''tmp'', ''b'']) \<mapsto> Dir,
                                   (''/'', [''tmp'', ''b'', ''backup_20250102_030405.zip''])
                                     \<mapsto> Dir]\<rparr>)) =
     Inl (OSError IsADirectoryError)
   \<and> files (snd (snd (backup_site sample_client ''/tmp/b''
          (sample_world\<lparr>files := [(''/'', [''tmp'']) \<mapsto> Dir,
                                   (''/'', [''tmp'', ''b'']) \<mapsto> Dir,
                                   (''/'', [''tmp'', ''b'', ''backup_20250102_030405.zip''])
                                     \<mapsto> Dir]\<rparr>)))) =
       [(''/'', [''tmp'']) \<mapsto> Dir, (''/'', [''tmp'', ''b'']) \<mapsto> Dir,
        (''/'', [''tmp'', ''b'', ''backup_20250102_030405.zip'']) \<mapsto> Dir]"
proof -
  have dir: "Path ''/tmp/b'' = (''/'', [''tmp'', ''b''])"
    by (simp add: Path_def path_anchor_def startswith_char_def)
  have clock: "now sample_world = sample_now"
    by (simp add: sample_world_def world_replying_def)
  show ?thesis
    by (simp add: backup_site_def mkdir_parents_def write_text_def node_at_def joinpath_def
        dir clock sample_backup_name Let_def)
qed

text \<open>
  C8, amended. For every call of \<open>backup_site\<close> made when no regular file stands at the
  backup path or at one of its parents and no directory has the name of the backup file:
  the call returns the path of the backup file; after it the backup directory and all its
  parents are directories, the backup file holds the placeholder text, every other path
  holds what it held before unless it is one of the directories just created, and nothing
  was sent. The file is named \<open>backup_\<close>, the four digits of the clock's year, the two of
  its month, the two of its day, an underscore, the two digits each of its hour, minute and
  second, and \<open>.zip\<close>.
\<close>

theorem backup_site_writes_one_file:
  assumes nofile: "\<forall>k t. 0 < k \<longrightarrow> files w (fst (Path bp), take k (snd (Path bp))) \<noteq> Some (File t)"
    and nodir: "files w (joinpath (Path bp) (backup_name (now w))) \<noteq> Some Dir"
  shows "\<exists>w'. backup_site c bp w =
                 (Inr (JStr (path_str (joinpath (Path bp) (backup_name (now w))))), c, w')
           \<and> (\<forall>k. node_at (files w') (fst (Path bp), take k (snd (Path bp))) = Some Dir)
           \<and> node_at (files w') (Path bp) = Some Dir
           \<and> files w' (joinpath (Path bp) (backup_name (now w))) = Some (File backup_text)
           \<and> (\<forall>q. q \<noteq> joinpath (Path bp) (backup_name (now w)) \<longrightarrow>
                  files w' q = files w q \<or>
                  (files w q = None \<and> files w' q = Some Dir
                     \<and> (\<exists>k. q = (fst (Path bp), take k (snd (Path bp))))))
           \<and> sent w' = sent w
           \<and> backup_name (now w) =
               ''backup_''
                 @ map digit_char
                     [year (now w) div 1000, year (now w) div 100 mod 10,
                      year (now w) div 10 mod 10, year (now w) mod 10,
                      month (now w) div 10, month (now w) mod 10,
                      day (now w) div 10, day (now w) mod 10]
                 @ ''_''
                 @ map digit_char
                     [hour (now w) div 10, hour (now w) mod 10, minute (now w) div 10,
                      minute (now w) mod 10, second (now w) div 10, second (now w) mod 10]
                 @ ''.zip''
           \<and> backup_text =
               ''Simulasi backup WordPress. Gunakan plugin seperti UpdraftPlus untuk backup nyata.''"
proof -
  let ?dir = "Path bp"
  let ?n = "length (snd ?dir)"
  let ?target = "joinpath ?dir (backup_name (now w))"
  from nofile obtain fs1 where mk: "make_dirs (files w) ?dir ?n = Inr fs1"
    using make_dirs_succeeds [of ?n "files w" ?dir] by auto
  have dirs: "node_at fs1 (fst ?dir, take k (snd ?dir)) = Some Dir" for k
  proof (cases "k \<le> ?n")
    case True
    from make_dirs_dirs [OF mk True] show ?thesis .
  next
    case False
    then have "take k (snd ?dir) = take ?n (snd ?dir)" by simp
    with make_dirs_dirs [OF mk le_refl] show ?thesis by simp
  qed
  have dir: "node_at fs1 ?dir = Some Dir" using dirs [of ?n] by simp
  have not_prefix: "?target \<noteq> (fst ?dir, take k (snd ?dir))" for k
  proof
    assume "?target = (fst ?dir, take k (snd ?dir))"
    then have "length (snd ?dir @ [backup_name (now w)]) = length (take k (snd ?dir))"
      by (simp add: joinpath_def)
    then show False by simp
  qed
  have same: "fs1 ?target = files w ?target"
  proof (rule ccontr)
    assume "fs1 ?target \<noteq> files w ?target"
    from make_dirs_frame [OF mk this] not_prefix show False by blast
  qed
  have parts: "snd ?target \<noteq> []" "butlast (snd ?target) = snd ?dir" "fst ?target = fst ?dir"
    by (simp_all add: joinpath_def)
  have "node_at fs1 ?target \<noteq> Some Dir"
    using same nodir parts(1) by (simp add: node_at_def)
  moreover have "node_at fs1 (fst ?target, butlast (snd ?target)) = Some Dir"
    using dir parts by simp
  ultimately have wr: "write_text fs1 ?target backup_text = Inr (fs1(?target \<mapsto> File backup_text))"
    by (auto simp: write_text_def split: option.splits node.splits)
  let ?w' = "w\<lparr>files := fs1(?target \<mapsto> File backup_text)\<rparr>"
  have run: "backup_site c bp w = (Inr (JStr (path_str ?target)), c, ?w')"
    using mk wr by (simp add: backup_site_def mkdir_parents_def Let_def)
  have d2: "node_at (files ?w') (fst ?dir, take k (snd ?dir)) = Some Dir" for k
    using dirs [of k] not_prefix [of k] by (auto simp: node_at_def split: if_splits)
  have d3: "node_at (files ?w') ?dir = Some Dir" using d2 [of ?n] by simp
  have frame: "files ?w' q = files w q \<or>
       (files w q = None \<and> files ?w' q = Some Dir \<and> (\<exists>k. q = (fst ?dir, take k (snd ?dir))))"
    if "q \<noteq> ?target" for q
  proof (cases "fs1 q = files w q")
    case True
    with that show ?thesis by simp
  next
    case False
    from make_dirs_frame [OF mk False] that show ?thesis by auto
  qed
  have name: "backup_name (now w) =
      ''backup_''
        @ map digit_char
            [year (now w) div 1000, year (now w) div 100 mod 10, year (now w) div 10 mod 10,
             year (now w) mod 10, month (now w) div 10, month (now w) mod 10,
             day (now w) div 10, day (now w) mod 10]
        @ ''_''
        @ map digit_char
            [hour (now w) div 10, hour (now w) mod 10, minute (now w) div 10,
             minute (now w) mod 10, second (now w) div 10, second (now w) mod 10]
        @ ''.zip''"
    by (simp add: backup_name_def stamp_digits)
  show ?thesis
    using run d2 d3 frame name backup_text_def
    by (intro exI [of _ ?w']) auto
qed

theorem backup_site_writes_one_file_witness:
  "fst (backup_site sample_client ''/tmp/b'' sample_world) =
     Inr (JStr ''/tmp/b/backup_20250102_030405.zip'')
   \<and> files (snd (snd (backup_site sample_client ''/tmp/b'' sample_world)))
         (''/'', [''tmp'', ''b'', ''backup_20250102_030405.zip'']) = Some (File backup_text)
   \<and> files (snd (snd (backup_site sample_client ''/tmp/b'' sample_world)))
         (''/'', [''tmp'', ''b'']) = Some Dir
   \<and> files (snd (snd (backup_site sample_client ''/tmp/b'' sample_world)))
         (''/'', [''tmp'']) = Some Dir"
proof -
  have clock: "now sample_world = sample_now"
    by (simp add: sample_world_def world_replying_def)
  have stamp: "backup_name (now sample_world) = ''backup_20250102_030405.zip''"
    by (simp add: clock sample_backup_name)
  have dir: "Path ''/tmp/b'' = (''/'', [''tmp'', ''b''])"
    by (simp add: Path_def path_anchor_def startswith_char_def)
  have nofile: "\<forall>k t. 0 < k \<longrightarrow>
      files sample_world (fst (Path ''/tmp/b''), take k (snd (Path ''/tmp/b''))) \<noteq> Some (File t)"
    by (simp add: sample_world_def world_replying_def)
  have nodir: "files sample_world (joinpath (Path ''/tmp/b'') (backup_name (now sample_world)))
                 \<noteq> Some Dir"
    by (simp add: sample_world_def world_replying_def)
  from backup_site_writes_one_file [OF nofile nodir, of sample_client]
  obtain w' where
    run: "backup_site sample_client ''/tmp/b'' sample_world =
            (Inr (JStr (path_str (joinpath (Path ''/tmp/b'') (backup_name (now sample_world))))),
             sample_client, w')"
    and parents: "\<forall>k. node_at (files w')
                         (fst (Path ''/tmp/b''), take k (snd (Path ''/tmp/b''))) = Some Dir"
    and isdir: "node_at (files w') (Path ''/tmp/b'') = Some Dir"
    and written: "files w' (joinpath (Path ''/tmp/b'') (backup_name (now sample_world))) =
                    Some (File backup_text)"
    by blast
  from parents have "node_at (files w') (fst (Path ''/tmp/b''), take 1 (snd (Path ''/tmp/b'')))
                       = Some Dir"
    by blast
  then have parent: "files w' (''/'', [''tmp'']) = Some Dir"
    by (simp add: dir node_at_def)
  show ?thesis
    using run isdir written parent
    by (simp add: stamp dir joinpath_def path_str_def node_at_def)
qed

section \<open>The session header set\<close>

lemma json_call_not_multipart:
  assumes "json_call m u p c w = (r, c', w')" and "\<forall>fs ds. p \<noteq> MultipartPayload fs ds"
  shows "c' = c \<and> (\<exists>q. sent w' = sent w @ [q] \<and> req_headers q = headers c
            \<and> (\<forall>fs ds. req_payload q \<noteq> MultipartPayload fs ds))"
  using json_call_effect [OF assms(1)] assms(2) by simp

lemma run_json_op:
  assumes "run_op c x w = (r, c', w')" and "is_json_op x"
  shows "c' = c \<and> (\<exists>q. sent w' = sent w @ [q] \<and> req_headers q = headers c
            \<and> (\<forall>fs ds. req_payload q \<noteq> MultipartPayload fs ds))"
proof (cases x)
  case ListThemes
  with assms(1) show ?thesis
    by (simp add: list_themes_def json_call_not_multipart)
next
  case (ActivateTheme s)
  with assms(1) show ?thesis
    by (simp add: activate_theme_def json_call_not_multipart)
next
  case (UpdateMenu i items)
  with assms(1) show ?thesis
    by (simp add: update_menu_def json_call_not_multipart)
next
  case (CreatePost t b cs img st pt)
  with assms(1) show ?thesis
    by (simp add: create_post_def json_call_not_multipart)
next
  case (UpdatePost i pt t b cs img)
  with assms(1) show ?thesis
    by (simp add: update_post_def json_call_not_multipart)
next
  case (DeletePost i pt)
  with assms(1) show ?thesis
    by (simp add: delete_post_def json_call_not_multipart)
next
  case (CreateUser u e p ro)
  with assms(1) show ?thesis
    by (simp add: create_user_def json_call_not_multipart)
next
  case (UpdateUser i e ro)
  with assms(1) show ?thesis
    by (simp add: update_user_def json_call_not_multipart)
next
  case (DeleteUser i re)
  with assms(1) show ?thesis
    by (simp add: delete_user_def json_call_not_multipart)
qed (use assms(2) in \<open>simp_all add: is_json_op_def\<close>)

lemma upload_media_effect:
  assumes "upload_media c file_path alt_text description w = (r, c', w')"
  shows "c' = c \<and> (sent w' = sent w \<or>
           (\<exists>q fs ds. sent w' = sent w @ [q] \<and> req_payload q = MultipartPayload fs ds))"
  using assms
  by (auto simp: upload_media_def send_def Let_def split: option.splits sum.splits prod.splits)

lemma backup_site_effect:
  assumes "backup_site c backup_path w = (r, c', w')"
  shows "c' = c \<and> sent w' = sent w"
  using assms by (auto simp: backup_site_def Let_def split: sum.splits)

lemma generate_article_effect:
  assumes "generate_article_with_gemini c topic len w = (r, c', w')"
  shows "c' = c \<and> w' = w"
  using assms
  by (auto simp: generate_article_with_gemini_def Let_def
           split: option.splits sum.splits prod.splits)

lemma run_op_effect:
  assumes "run_op c x w = (r, c', w')"
  shows "c' = c \<and> (\<exists>new. sent w' = sent w @ new \<and>
           (\<forall>q \<in> set new. (\<exists>fs ds. req_payload q = MultipartPayload fs ds)
                              \<or> req_headers q = headers c))"
proof (cases "is_json_op x")
  case True
  from run_json_op [OF assms True] show ?thesis by auto
next
  case False
  then consider (up) fp a d where "x = UploadMedia fp a d"
    | (bk) bp where "x = BackupSite bp"
    | (gen) t l where "x = GenerateArticle t l"
    by (cases x) (simp_all add: is_json_op_def)
  then show ?thesis
  proof cases
    case up
    with assms have "upload_media c fp a d w = (r, c', w')" by simp
    from upload_media_effect [OF this] show ?thesis by auto
  next
    case bk
    with assms have "backup_site c bp w = (r, c', w')" by simp
    from backup_site_effect [OF this] show ?thesis by simp
  next
    case gen
    with assms have "generate_article_with_gemini c t l w = (r, c', w')" by simp
    from generate_article_effect [OF this] show ?thesis by simp
  qed
qed

lemma run_ops_effect:
  "run_ops c xs w = (c', w') \<Longrightarrow>
     c' = c \<and> (\<exists>new. sent w' = sent w @ new \<and>
           (\<forall>q \<in> set new. (\<exists>fs ds. req_payload q = MultipartPayload fs ds)
                              \<or> req_headers q = headers c))"
proof (induction xs arbitrary: w)
  case Nil
  then show ?case by simp
next
  case (Cons x xs)
  obtain r c1 w1 where step: "run_op c x w = (r, c1, w1)"
    by (cases "run_op c x w") auto
  from run_op_effect [OF step] obtain new1 where
    c1: "c1 = c" and new1: "sent w1 = sent w @ new1"
    and h1: "\<forall>q \<in> set new1. (\<exists>fs ds. req_payload q = MultipartPayload fs ds)
                               \<or> req_headers q = headers c"
    by auto
  from Cons.prems step c1 have rest: "run_ops c xs w1 = (c', w')" by simp
  from Cons.IH [OF rest] obtain new2 where
    c': "c' = c" and new2: "sent w' = sent w1 @ new2"
    and h2: "\<forall>q \<in> set new2. (\<exists>fs ds. req_payload q = MultipartPayload fs ds)
                               \<or> req_headers q = headers c"
    by auto
  have "sent w' = sent w @ (new1 @ new2)" using new1 new2 by simp
  moreover have "\<forall>q \<in> set (new1 @ new2).
      (\<exists>fs ds. req_payload q = MultipartPayload fs ds) \<or> req_headers q = headers c"
    using h1 h2 by auto
  ultimately show ?case using c' by blast
qed

text \<open>A client that construction returns has the token and the two headers of the session.\<close>

lemma init_headers:
  assumes "init getenv w = (Inr c, w')"
  shows "headers c = Some [(''Authorization'', ''Bearer '' @ py_str (token c)),
                           (''Content-Type'', ''application/json'')]"
  using assms
  by (auto simp: init_def authenticate_def configure_gemini_def Let_def
           split: option.splits sum.splits prod.splits json.splits)

text \<open>
  C9. No sequence of method calls changes the client, so the header set it ends with is the
  one it started with; every request sent during the sequence either is a multipart upload
  or carries exactly that header set; and each call of a JSON method (theme, menu, post or
  user) sends one request, which carries exactly that header set.
\<close>

theorem session_headers_invariant:
  "(run_ops c xs w = (c', w') \<longrightarrow>
      c' = c \<and> headers c' = headers c \<and>
      (\<exists>new. sent w' = sent w @ new \<and>
         (\<forall>q \<in> set new. (\<exists>fs ds. req_payload q = MultipartPayload fs ds)
                            \<or> req_headers q = headers c)))
   \<and> (run_op c x w = (r, c1, w1) \<and> is_json_op x \<longrightarrow>
        headers c1 = headers c \<and> (\<exists>q. sent w1 = sent w @ [q] \<and> req_headers q = headers c))"
  using run_ops_effect [of c xs w c' w'] run_json_op [of c x w r c1 w1] by blast

theorem session_headers_invariant_witness:
  "headers (fst (run_ops sample_client
                   [ListThemes, UploadMedia ''a.jpg'' ''alt'' ''desc'', BackupSite ''b'',
                    DeleteUser 3 (Some 5)] sample_world)) = headers sample_client
   \<and> map req_headers
       (sent (snd (run_ops sample_client
                     [ListThemes, UploadMedia ''a.jpg'' ''alt'' ''desc'', BackupSite ''b'',
                      DeleteUser 3 (Some 5)] sample_world))) =
       [headers sample_client, Some [(''Authorization'', ''Bearer abc'')],
        headers sample_client]
   \<and> map req_headers (sent (snd (snd (run_op sample_client ListThemes sample_world)))) =
       [headers sample_client]"
proof -
  let ?xs = "[ListThemes, UploadMedia ''a.jpg'' ''alt'' ''desc'', BackupSite ''b'',
              DeleteUser 3 (Some 5)]"
  let ?run = "run_ops sample_client ?xs sample_world"
  let ?one = "run_op sample_client ListThemes sample_world"
  have run: "?run = (fst ?run, snd ?run)" by simp
  have one: "?one = (fst ?one, fst (snd ?one), snd (snd ?one))" by simp
  have js: "is_json_op ListThemes" by (simp add: is_json_op_def)
  have start: "sent sample_world = []" by (simp add: sample_world_def world_replying_def)
  have trace: "map req_headers (sent (snd ?run)) =
      [headers sample_client, Some [(''Authorization'', ''Bearer abc'')], headers sample_client]"
    by (simp add: list_themes_def upload_media_def backup_site_def delete_user_def
        json_call_def send_def mkdir_parents_def write_text_def node_at_def Path_def
        path_anchor_def joinpath_def sample_client_def fresh_client_def sample_world_def
        world_replying_def Let_def)
  from session_headers_invariant
         [of sample_client ?xs sample_world "fst ?run" "snd ?run" ListThemes "fst ?one"
            "fst (snd ?one)" "snd (snd ?one)"]
       run one js
  have "headers (fst ?run) = headers sample_client"
    and "\<exists>q. sent (snd (snd ?one)) = sent sample_world @ [q]
             \<and> req_headers q = headers sample_client"
    by auto
  with trace start show ?thesis by auto
qed

end
